theory Spec2Isabelle
  imports Complex_Main "HOL-Library.Sublist" "HOL-Library.Char_ord" "HOL-Library.List_Lexorder"
begin

section \<open>Data model\<close>

text \<open>
  Products are JSON objects read from a flat file. A product is modelled as a record with
  one field per key the code reads; a field of option type is \<open>None\<close> when the key is
  missing, and a list field is empty when the key is missing (every read of such a key in
  the source has the default \<open>[]\<close> or only tests the value for truth). A key that is
  present holds a value of the type the data model gives it. Numbers are mathematical
  reals: the rounding of Python's floats is not modelled.

  A product id is an opaque number or string.
\<close>

datatype ident = IdNum int | IdStr string

record product =
  pid :: "ident option"
  title :: "string option"
  tags :: "string list"
  seo_description :: "string option"
  bullets :: "string list"
  category_name :: "string option"
  category_slug :: "string option"
  product_type :: "string option"
  animal :: "string option"
  images :: "string list"
  price :: "real option"
  category :: "string option"
  rating :: "real option"
  reviews_count :: "real option"
  badge :: "string option"
  published :: "bool option"
  stock :: "int option"
  is_bundle :: "bool option"

text \<open>An entry of a cart or of an order, as \<open>get_cart_upsells\<close> reads it.\<close>

record item =
  item_id :: "ident option"
  item_category :: "string option"
  item_tags :: "string list"
  item_price :: "real option"
  quantity :: "real option"

text \<open>What the history file holds for one user.\<close>

record history =
  views :: "ident list"
  purchases :: "ident list"
  cart :: "item list"

text \<open>
  The two files of the recommendation engine: the catalog (\<open>products_v5.json\<close>, the empty
  list when the file is absent) and the history of every user (\<open>user_history.json\<close>).
\<close>

record store =
  products_file :: "product list"
  history_file :: "string \<rightharpoonup> history"

section \<open>Python primitives\<close>

text \<open>\<open>d.get(k, default)\<close> on a key that may be missing.\<close>

definition dict_get :: "'a option \<Rightarrow> 'a \<Rightarrow> 'a" where
  "dict_get v d = (case v of None \<Rightarrow> d | Some x \<Rightarrow> x)"

text \<open>Truth value of an id: \<open>0\<close> and the empty string are false.\<close>

fun truthy_id :: "ident \<Rightarrow> bool" where
  "truthy_id (IdNum n) = (n \<noteq> 0)"
| "truthy_id (IdStr s) = (s \<noteq> [])"

text \<open>The slice \<open>xs[:n]\<close>; a negative \<open>n\<close> counts from the end.\<close>

definition py_take :: "int \<Rightarrow> 'a list \<Rightarrow> 'a list" where
  "py_take n xs =
     (if n < 0 then take (nat (int (length xs) + n)) xs else take (nat n) xs)"

text \<open>
  \<open>xs.sort(key=f, reverse=True)\<close> and \<open>sorted(xs, key=f, reverse=True)\<close>: descending by
  key, elements with equal keys keep their order (Python's sort is stable, also when
  reversed).
\<close>

definition sort_desc :: "('a \<Rightarrow> real) \<Rightarrow> 'a list \<Rightarrow> 'a list" where
  "sort_desc f xs = sort_key (\<lambda>x. - f x) xs"

section \<open>The recommendation engine (\<open>engines/upsell_engine_v2.py\<close>)\<close>

definition load_products :: "store \<Rightarrow> product list" where
  "load_products st = products_file st"

definition calculate_similarity_score :: "product \<Rightarrow> product \<Rightarrow> real" where
  "calculate_similarity_score product1 product2 =
     (let score = (if category product1 = category product2 then 30 else 0);
          tags1 = set (tags product1);
          tags2 = set (tags product2);
          score = (if tags1 \<noteq> {} \<and> tags2 \<noteq> {}
                   then score + real (card (tags1 \<inter> tags2)) / real (card (tags1 \<union> tags2)) * 40
                   else score);
          price1 = dict_get (price product1) 0;
          price2 = dict_get (price product2) 0;
          score = (if price1 > 0 \<and> price2 > 0
                   then score + max 0 (20 - (\<bar>price1 - price2\<bar> / max price1 price2) * 40)
                   else score);
          rating2 = dict_get (rating product2) 0
      in if rating2 \<ge> 4.5 then score + 10
         else if rating2 \<ge> 4.0 then score + 5
         else score)"

text \<open>The score of one product in the popularity ranking.\<close>

definition popular_score :: "product \<Rightarrow> real" where
  "popular_score p =
     (let score = dict_get (rating p) 0 * 20 + dict_get (reviews_count p) 0 / 10
      in if badge p = Some ''Bestseller'' then score + 50 else score)"

definition get_popular_products :: "store \<Rightarrow> int \<Rightarrow> product list" where
  "get_popular_products st limit =
     (let scored = map (\<lambda>p. (p, popular_score p))
                     (filter (\<lambda>p. dict_get (published p) True) (load_products st))
      in map fst (py_take limit (sort_desc snd scored)))"

text \<open>The score of a candidate \<open>p\<close> for the seed \<open>source_product\<close>, with the upsell band.\<close>

definition upsell_score :: "product \<Rightarrow> product \<Rightarrow> real" where
  "upsell_score source_product p =
     (let score = calculate_similarity_score source_product p;
          source_price = dict_get (price source_product) 0;
          p_price = dict_get (price p) 0
      in if p_price > source_price \<and> p_price \<le> source_price * 1.5 then score + 15 else score)"

text \<open>
  The seed id is a proper id (not \<open>None\<close>), so a product found under it is a non-empty
  object and the test \<open>not source_product\<close> fails exactly when the search found nothing.
\<close>

definition get_upsells_for_product :: "store \<Rightarrow> ident \<Rightarrow> int \<Rightarrow> product list" where
  "get_upsells_for_product st product_id limit =
     (let products = load_products st
      in case find (\<lambda>p. pid p = Some product_id) products of
           None \<Rightarrow> get_popular_products st limit
         | Some source_product \<Rightarrow>
             (let candidates = map (\<lambda>p. (p, upsell_score source_product p))
                    (filter (\<lambda>p. pid p \<noteq> Some product_id
                                \<and> dict_get (published p) True
                                \<and> \<not> dict_get (stock p) 0 \<le> 0) products)
              in map fst (py_take limit (sort_desc snd candidates))))"

definition cart_score :: "string set \<Rightarrow> string set \<Rightarrow> product \<Rightarrow> real" where
  "cart_score categories tags' p =
     (let score = (if (case category p of None \<Rightarrow> False | Some c \<Rightarrow> c \<in> categories)
                   then 20 else 0);
          p_tags = set (tags p);
          score = (if p_tags \<inter> tags' \<noteq> {}
                   then score + (if p_tags \<noteq> {}
                                 then real (card (p_tags \<inter> tags')) / real (card (p_tags \<union> tags'))
                                 else 0) * 30
                   else score);
          p_price = dict_get (price p) 0;
          score = (if p_price < 20 then score + 25
                   else if p_price < 40 then score + 15
                   else score);
          score = (if badge p \<in> {Some ''Bestseller'', Some ''Hot'', Some ''Trending''}
                   then score + 10 else score)
      in if dict_get (rating p) 0 \<ge> 4.5 then score + 10 else score)"

definition get_cart_upsells :: "store \<Rightarrow> item list \<Rightarrow> int \<Rightarrow> product list" where
  "get_cart_upsells st cart_items limit =
     (let products = load_products st;
          cart_ids = set (map item_id cart_items);
          categories = set (map (\<lambda>i. dict_get (item_category i) []) cart_items);
          tags' = \<Union> (set (map (\<lambda>i. set (item_tags i)) cart_items));
          candidates = map (\<lambda>p. (p, cart_score categories tags' p))
              (filter (\<lambda>p. pid p \<notin> cart_ids
                          \<and> dict_get (published p) True
                          \<and> \<not> dict_get (stock p) 0 \<le> 0) products)
      in map fst (py_take limit (sort_desc snd candidates)))"

definition checkout_score :: "product \<Rightarrow> real" where
  "checkout_score p =
     (let p_price = dict_get (price p) 0;
          score = (if p_price \<le> 15 then 40 else if p_price \<le> 25 then 20 else 0);
          score = (if badge p \<in> {Some ''Bestseller'', Some ''Hot''} then score + 20 else score);
          score = (if dict_get (rating p) 0 \<ge> 4.7 then score + 15 else score)
      in if ''bundle'' \<in> set (tags p) \<or> dict_get (is_bundle p) False
         then score + 10 else score)"

definition get_checkout_upsells :: "store \<Rightarrow> item list \<Rightarrow> int \<Rightarrow> product list" where
  "get_checkout_upsells st cart_items limit =
     (let products = load_products st;
          cart_ids = set (map item_id cart_items);
          candidates = map (\<lambda>p. (p, checkout_score p))
              (filter (\<lambda>p. pid p \<notin> cart_ids \<and> dict_get (published p) True) products)
      in map fst (py_take limit (sort_desc snd candidates)))"

definition post_purchase_score :: "string set \<Rightarrow> product \<Rightarrow> real" where
  "post_purchase_score categories p =
     (let score = (if (case category p of None \<Rightarrow> False | Some c \<Rightarrow> c \<in> categories)
                   then 25 else 0);
          score = (if badge p \<in> {Some ''Bestseller'', Some ''New'', Some ''Trending''}
                   then score + 15 else score)
      in score + (dict_get (rating p) 0 - 4) * 20)"

definition get_post_purchase_upsells :: "store \<Rightarrow> item list \<Rightarrow> int \<Rightarrow> product list" where
  "get_post_purchase_upsells st order_items limit =
     (let products = load_products st;
          order_ids = set (map item_id order_items);
          categories = set (map (\<lambda>i. dict_get (item_category i) []) order_items);
          candidates = map (\<lambda>p. (p, post_purchase_score categories p))
              (filter (\<lambda>p. pid p \<notin> order_ids \<and> dict_get (published p) True) products)
      in map fst (py_take limit (sort_desc snd candidates)))"

text \<open>
  The entry point. \<open>product_id\<close> and \<open>user_id\<close> default to \<open>None\<close>; the first branch
  needs a \<open>product_id\<close> that is true as a Python value.
\<close>

definition get_ai_recommendations ::
  "store \<Rightarrow> ident option \<Rightarrow> string option \<Rightarrow> string \<Rightarrow> int \<Rightarrow> product list" where
  "get_ai_recommendations st product_id user_id context' limit =
     (if context' = ''product'' \<and> (case product_id of None \<Rightarrow> False | Some i \<Rightarrow> truthy_id i)
      then get_upsells_for_product st (the product_id) limit
      else if context' = ''cart'' then get_cart_upsells st [] limit
      else if context' = ''checkout'' then get_checkout_upsells st [] limit
      else if context' = ''post_purchase'' then get_post_purchase_upsells st [] limit
      else get_popular_products st limit)"

section \<open>Python strings\<close>

text \<open>
  A Python string is a sequence of code points; a \<open>char\<close> stands for one code point below
  256 (ASCII and Latin-1), read by \<open>of_char\<close>. The character classes are those of
  Python 3 on that range: \<open>str.isspace\<close> (also the class \<open>\s\<close> of \<open>re\<close> and the separator
  of \<open>str.split()\<close> and \<open>str.strip()\<close>), \<open>str.isalnum\<close>, the class \<open>\w\<close> of \<open>re\<close>
  (alphanumeric or underscore) and \<open>str.lower\<close>.
\<close>

definition py_isspace :: "char \<Rightarrow> bool" where
  "py_isspace c = (let n = (of_char c :: nat)
                   in (9 \<le> n \<and> n \<le> 13) \<or> (28 \<le> n \<and> n \<le> 32) \<or> n = 133 \<or> n = 160)"

definition py_isalnum :: "char \<Rightarrow> bool" where
  "py_isalnum c = (let n = (of_char c :: nat)
                   in (48 \<le> n \<and> n \<le> 57) \<or> (65 \<le> n \<and> n \<le> 90) \<or> (97 \<le> n \<and> n \<le> 122)
                      \<or> n = 170 \<or> n = 178 \<or> n = 179 \<or> n = 181 \<or> n = 185 \<or> n = 186
                      \<or> (188 \<le> n \<and> n \<le> 190) \<or> (192 \<le> n \<and> n \<le> 214)
                      \<or> (216 \<le> n \<and> n \<le> 246) \<or> (248 \<le> n \<and> n \<le> 255))"

definition py_isword :: "char \<Rightarrow> bool" where
  "py_isword c = (py_isalnum c \<or> c = CHR ''_'')"

definition py_lower_char :: "char \<Rightarrow> char" where
  "py_lower_char c = (let n = (of_char c :: nat)
                      in if (65 \<le> n \<and> n \<le> 90) \<or> (192 \<le> n \<and> n \<le> 214) \<or> (216 \<le> n \<and> n \<le> 222)
                         then char_of (n + 32) else c)"

definition py_lower :: "string \<Rightarrow> string" where
  "py_lower s = map py_lower_char s"

text \<open>\<open>s.strip()\<close>.\<close>

definition py_strip :: "string \<Rightarrow> string" where
  "py_strip s = rev (dropWhile py_isspace (rev (dropWhile py_isspace s)))"

text \<open>
  The pieces of a string between separator characters, empty pieces dropped;
  \<open>s.split()\<close> separates at whitespace.
\<close>

function tokens :: "(char \<Rightarrow> bool) \<Rightarrow> string \<Rightarrow> string list" where
  "tokens sep [] = []"
| "tokens sep (c # cs) =
     (if sep c then tokens sep cs
      else (c # takeWhile (\<lambda>x. \<not> sep x) cs) # tokens sep (dropWhile (\<lambda>x. \<not> sep x) cs))"
  by pat_completeness auto
termination
  by (relation "measure (\<lambda>(sep, s). length s)")
     (auto simp: le_imp_less_Suc length_dropWhile_le)

definition py_split :: "string \<Rightarrow> string list" where
  "py_split s = tokens py_isspace s"

text \<open>\<open>x in y\<close> on strings: \<open>x\<close> occurs in \<open>y\<close> as a contiguous piece.\<close>

definition py_in :: "string \<Rightarrow> string \<Rightarrow> bool" where
  "py_in x y = sublist x y"

text \<open>\<open>v or d\<close> on a number that may be missing: \<open>None\<close> and \<open>0\<close> are false.\<close>

definition py_or :: "real option \<Rightarrow> real \<Rightarrow> real" where
  "py_or v d = (case v of None \<Rightarrow> d | Some x \<Rightarrow> if x = 0 then d else x)"

section \<open>The search engine (\<open>engine_search.py\<close>)\<close>

text \<open>\<open>re.sub(r'[^\w\s]', ' ', text)\<close>.\<close>

definition sub_non_word :: "string \<Rightarrow> string" where
  "sub_non_word s = map (\<lambda>c. if py_isword c \<or> py_isspace c then c else CHR '' '') s"

text \<open>\<open>re.sub(r'\s+', ' ', text)\<close>: every maximal run of whitespace becomes one space.\<close>

fun sub_spaces :: "string \<Rightarrow> string" where
  "sub_spaces [] = []"
| "sub_spaces [c] = [if py_isspace c then CHR '' '' else c]"
| "sub_spaces (c # d # cs) =
     (if py_isspace c
      then (if py_isspace d then sub_spaces (d # cs) else CHR '' '' # sub_spaces (d # cs))
      else c # sub_spaces (d # cs))"

text \<open>The argument is \<open>None\<close> or a string; \<open>None\<close> and the empty string are false.\<close>

definition normalize_text :: "string option \<Rightarrow> string" where
  "normalize_text text =
     (case text of
        None \<Rightarrow> []
      | Some t \<Rightarrow> if t = [] then [] else py_strip (sub_spaces (sub_non_word (py_lower t))))"

text \<open>
  \<open>SequenceMatcher(None, a, b).ratio()\<close> comes from the standard library; the model takes
  it as the parameter \<open>ratio\<close>.
\<close>

definition fuzzy_match :: "(string \<Rightarrow> string \<Rightarrow> real) \<Rightarrow> string \<Rightarrow> string \<Rightarrow> real" where
  "fuzzy_match ratio query text =
     (if query = [] \<or> text = [] then 0
      else let query = normalize_text (Some query);
               text = normalize_text (Some text)
           in if py_in query text then 1.0
              else let query_words = set (py_split query);
                       text_words = set (py_split text);
                       word_matches = card (query_words \<inter> text_words)
                   in if word_matches > 0
                      then 0.8 + (real word_matches / real (card query_words)) * 0.2
                      else ratio query text)"

definition calculate_relevance :: "(string \<Rightarrow> string \<Rightarrow> real) \<Rightarrow> product \<Rightarrow> string \<Rightarrow> real" where
  "calculate_relevance ratio product query =
     (let query_lower = normalize_text (Some query);
          title' = normalize_text (Some (dict_get (title product) []));
          score = fuzzy_match ratio query_lower title' * 100;
          score = (if py_in query_lower title' then score + 50 else score);
          score = score + (\<Sum>tag \<leftarrow> tags product. fuzzy_match ratio query_lower tag * 20);
          seo_desc = normalize_text (Some (dict_get (seo_description product) []));
          score = score + fuzzy_match ratio query_lower seo_desc * 15;
          score = score + (\<Sum>bullet \<leftarrow> bullets product. fuzzy_match ratio query_lower bullet * 10);
          category' = normalize_text (Some (dict_get (category_name product) []));
          score = (if py_in query_lower category' then score + 25 else score);
          animal' = dict_get (animal product) [];
          score = (if py_in query_lower (py_lower animal') then score + 30 else score)
      in if images product \<noteq> [] then score + 5 else score)"

text \<open>
  A price bound of a filter, as \<open>float()\<close> takes it: \<open>Numeric r\<close> is a value that
  \<open>float()\<close> converts to \<open>r\<close>, \<open>NonNumeric\<close> a value on which \<open>float()\<close> raises (such as
  the string \<open>cheap\<close>).
\<close>

datatype bound = Numeric real | NonNumeric

datatype error = ValueError

definition py_float :: "bound \<Rightarrow> error + real" where
  "py_float b = (case b of Numeric r \<Rightarrow> Inr r | NonNumeric \<Rightarrow> Inl ValueError)"

record filters =
  flt_category :: "string option"
  flt_animal :: "string option"
  price_min :: "bound option"
  price_max :: "bound option"
  has_images :: "bool option"

text \<open>
  The filter set is \<open>None\<close> or an object. (The source returns early on an empty object
  too; with every key missing each step below leaves the list as it is.)
\<close>

definition apply_filters :: "product list \<Rightarrow> filters option \<Rightarrow> error + product list" where
  "apply_filters products flt =
     (case flt of
        None \<Rightarrow> Inr products
      | Some f \<Rightarrow>
          (let filtered = products;
               filtered =
                 (if dict_get (flt_category f) [] \<noteq> []
                  then (let cat = py_lower (dict_get (flt_category f) [])
                        in filter (\<lambda>p. py_in cat (py_lower (dict_get (category_slug p) []))
                                      \<or> py_in cat (py_lower (dict_get (product_type p) []))) filtered)
                  else filtered);
               filtered =
                 (if dict_get (flt_animal f) [] \<noteq> []
                  then (let animal' = py_lower (dict_get (flt_animal f) [])
                        in filter (\<lambda>p. py_lower (dict_get (animal p) []) = animal') filtered)
                  else filtered)
           in case (case price_min f of
                      None \<Rightarrow> Inr filtered
                    | Some b \<Rightarrow>
                        (case py_float b of
                           Inl e \<Rightarrow> Inl e
                         | Inr min_price \<Rightarrow> Inr (filter (\<lambda>p. py_or (price p) 0 \<ge> min_price) filtered))) of
                Inl e \<Rightarrow> Inl e
              | Inr filtered \<Rightarrow>
                 (case (case price_max f of
                          None \<Rightarrow> Inr filtered
                        | Some b \<Rightarrow>
                            (case py_float b of
                               Inl e \<Rightarrow> Inl e
                             | Inr max_price \<Rightarrow>
                                 Inr (filter (\<lambda>p. py_or (price p) 999999 \<le> max_price) filtered))) of
                    Inl e \<Rightarrow> Inl e
                  | Inr filtered \<Rightarrow>
                      Inr (if dict_get (has_images f) False
                           then filter (\<lambda>p. images p \<noteq> []) filtered
                           else filtered))))"

text \<open>
  The dictionary \<open>scores\<close>, from product id (\<open>None\<close> when the product has none) to score,
  as the list of its writes in order; a later write to a key replaces an earlier one.
  \<open>scores_get\<close> is \<open>scores.get(k, 0)\<close>.
\<close>

type_synonym scores = "(ident option \<times> real) list"

definition scores_get :: "scores \<Rightarrow> ident option \<Rightarrow> real" where
  "scores_get scores k = (case map_of (rev scores) k of None \<Rightarrow> 0 | Some v \<Rightarrow> v)"

text \<open>
  \<open>scores\<close> is false when it is \<open>None\<close> (the default) or empty; the empty list stands for
  both.
\<close>

definition sort_products :: "product list \<Rightarrow> string \<Rightarrow> scores \<Rightarrow> product list" where
  "sort_products products sort_by scores =
     (if sort_by = ''relevance'' \<and> scores \<noteq> []
      then sort_desc (\<lambda>p. scores_get scores (pid p)) products
      else if sort_by = ''price_low'' then sort_key (\<lambda>p. py_or (price p) 0) products
      else if sort_by = ''price_high'' then sort_desc (\<lambda>p. py_or (price p) 0) products
      else if sort_by = ''name'' then sort_key (\<lambda>p. py_lower (dict_get (title p) [])) products
      else products)"

text \<open>
  The answer of a search. The early return on an empty catalog has the keys \<open>results\<close>,
  \<open>total\<close> and \<open>query\<close> only; \<open>echo\<close> holds the keys \<open>filters\<close> and \<open>sort\<close> when present.
\<close>

record search_result =
  results :: "product list"
  total :: nat
  query_echo :: string
  echo :: "(filters option \<times> string) option"

text \<open>
  \<open>products\<close> is what \<open>load_products()\<close> of this module reads from \<open>data/products.json\<close>
  (the empty list when the file is absent).
\<close>

definition search_products ::
  "(string \<Rightarrow> string \<Rightarrow> real) \<Rightarrow> product list \<Rightarrow> string \<Rightarrow> filters option \<Rightarrow> string \<Rightarrow> int
     \<Rightarrow> error + search_result" where
  "search_products ratio products query flt sort_by limit =
     (if products = [] then Inr \<lparr>results = [], total = 0, query_echo = query, echo = None\<rparr>
      else
        let scores = map (\<lambda>product. (pid product, calculate_relevance ratio product query)) products;
            min_score = 10;
            matched = filter (\<lambda>p. scores_get scores (pid p) \<ge> min_score) products
        in case apply_filters matched flt of
             Inl e \<Rightarrow> Inl e
           | Inr filtered \<Rightarrow>
               (let sorted_results = sort_products filtered sort_by scores;
                    results' = py_take limit sorted_results
                in Inr \<lparr>results = results', total = length filtered, query_echo = query,
                         echo = Some (flt, sort_by)\<rparr>))"

text \<open>
  The search index. Each of its four dictionaries is a map; a posting is the list of ids in
  the order of the appends.
\<close>

record index_entry =
  entry_title :: "string option"
  entry_price :: "real option"
  entry_image :: "string option"

record search_index =
  entries :: "ident \<rightharpoonup> index_entry"
  terms :: "string \<rightharpoonup> ident list"
  categories :: "string \<rightharpoonup> ident list"
  animals :: "string \<rightharpoonup> ident list"

text \<open>\<open>if k not in d: d[k] = []\<close> followed by \<open>d[k].append(i)\<close>.\<close>

definition append_posting :: "(string \<rightharpoonup> ident list) \<Rightarrow> string \<Rightarrow> ident \<Rightarrow> (string \<rightharpoonup> ident list)" where
  "append_posting d k i = d(k \<mapsto> (case d k of None \<Rightarrow> [] | Some l \<Rightarrow> l) @ [i])"

text \<open>The body of the loop over the products, for one product.\<close>

definition index_product :: "search_index \<Rightarrow> product \<Rightarrow> search_index" where
  "index_product index product =
     (case pid product of
        None \<Rightarrow> index
      | Some i \<Rightarrow>
          if \<not> truthy_id i then index
          else
            let index = index\<lparr>entries := (entries index)(i \<mapsto>
                          \<lparr>entry_title = title product, entry_price = price product,
                           entry_image = (case images product of [] \<Rightarrow> None | x # _ \<Rightarrow> Some x)\<rparr>)\<rparr>;
                title' = normalize_text (Some (dict_get (title product) []));
                index = fold (\<lambda>word ix. if length word > 2
                                          then ix\<lparr>terms := append_posting (terms ix) word i\<rparr>
                                          else ix) (py_split title') index;
                index = fold (\<lambda>tag ix. let tag_norm = normalize_text (Some tag)
                                         in if tag_norm \<noteq> []
                                            then ix\<lparr>terms := append_posting (terms ix) tag_norm i\<rparr>
                                            else ix) (tags product) index;
                cat = dict_get (category_slug product) ''other'';
                index = index\<lparr>categories := append_posting (categories index) cat i\<rparr>;
                animal' = dict_get (animal product) ''dog''
            in index\<lparr>animals := append_posting (animals index) animal' i\<rparr>)"

definition build_search_index :: "product list \<Rightarrow> search_index" where
  "build_search_index products =
     fold (\<lambda>product index. index_product index product) products
       \<lparr>entries = Map.empty, terms = Map.empty, categories = Map.empty, animals = Map.empty\<rparr>"

text \<open>The empty object \<open>{}\<close>: every key is missing.\<close>

definition blank_product :: product where
  "blank_product = \<lparr>pid = None, title = None, tags = [], seo_description = None, bullets = [],
     category_name = None, category_slug = None, product_type = None, animal = None,
     images = [], price = None, category = None, rating = None, reviews_count = None,
     badge = None, published = None, stock = None, is_bundle = None\<rparr>"

text \<open>The filter object with every key missing.\<close>

definition no_filters :: filters where
  "no_filters = \<lparr>flt_category = None, flt_animal = None, price_min = None, price_max = None,
     has_images = None\<rparr>"


section \<open>Properties of the recommendation engine\<close>

subsection \<open>Ranking helpers\<close>

lemma rank_map_fst:
  "map fst (py_take n (sort_desc snd (map (\<lambda>p. (p, f p)) xs))) = py_take n (sort_desc f xs)"
proof -
  have ins: "insort_key (\<lambda>x. - snd x) (p, f p) (map (\<lambda>p. (p, f p)) ys)
      = map (\<lambda>p. (p, f p)) (insort_key (\<lambda>x. - f x) p ys)" for p ys
    by (induction ys) auto
  have "sort_key (\<lambda>x. - snd x) (map (\<lambda>p. (p, f p)) xs) = map (\<lambda>p. (p, f p)) (sort_key (\<lambda>x. - f x) xs)"
    by (induction xs) (auto simp: ins)
  then show ?thesis
    by (simp add: sort_desc_def py_take_def take_map comp_def)
qed

lemma set_py_take: "set (py_take n xs) \<subseteq> set xs"
  by (auto simp: py_take_def dest: in_set_takeD)

lemma set_sort_desc [simp]: "set (sort_desc f xs) = set xs"
  by (simp add: sort_desc_def)

subsection \<open>Price proximity\<close>





subsection \<open>Exclusions\<close>

text \<open>
  C2 holds where the seed is found and is broken by the fallback. The catalog holds one
  product, id 2 with stock 0; the seed id 1 is not in the catalog, so the popularity
  ranking answers, and it returns the product that is out of stock. The loop of the main
  path has the test \<open>stock <= 0\<close>; the loop of \<open>get_popular_products\<close> lacks it.
\<close>

theorem C2_fallback_returns_out_of_stock:
  "get_upsells_for_product
     \<lparr>products_file = [blank_product\<lparr>pid := Some (IdNum 2), stock := Some 0\<rparr>], history_file = Map.empty\<rparr>
     (IdNum 1) 3
   = [blank_product\<lparr>pid := Some (IdNum 2), stock := Some 0\<rparr>]
   \<and> dict_get (stock (blank_product\<lparr>pid := Some (IdNum 2), stock := Some 0\<rparr>)) 0 \<le> 0"
  by (simp add: get_upsells_for_product_def get_popular_products_def load_products_def
      sort_desc_def py_take_def dict_get_def blank_product_def)

text \<open>
  What holds on both paths: the list returned by \<open>get_upsells_for_product\<close> never
  contains a product with the seed's id nor an unpublished product; and when the seed id is
  in the catalog it contains no product with \<open>stock <= 0\<close>.
\<close>

theorem upsells_exclusion:
  "(\<forall>r \<in> set (get_upsells_for_product st seed limit). pid r \<noteq> Some seed \<and> published r \<noteq> Some False)
   \<and> ((\<exists>p \<in> set (load_products st). pid p = Some seed)
        \<longrightarrow> (\<forall>r \<in> set (get_upsells_for_product st seed limit). 0 < dict_get (stock r) 0))"
proof (cases "find (\<lambda>p. pid p = Some seed) (load_products st)")
  case None
  then have absent: "\<forall>p \<in> set (load_products st). pid p \<noteq> Some seed"
    by (simp add: find_None_iff)
  have "get_upsells_for_product st seed limit = get_popular_products st limit"
    using None by (simp add: get_upsells_for_product_def)
  also have "\<dots> = py_take limit (sort_desc popular_score (filter (\<lambda>p. dict_get (published p) True) (load_products st)))"
    by (simp add: get_popular_products_def rank_map_fst)
  finally have "set (get_upsells_for_product st seed limit)
      \<subseteq> {p \<in> set (load_products st). dict_get (published p) True}"
    using set_py_take [of limit "sort_desc popular_score (filter (\<lambda>p. dict_get (published p) True) (load_products st))"]
    by auto
  with absent show ?thesis by (auto simp: dict_get_def)
next
  case (Some s)
  have "get_upsells_for_product st seed limit
      = py_take limit (sort_desc (upsell_score s)
          (filter (\<lambda>p. pid p \<noteq> Some seed \<and> dict_get (published p) True \<and> \<not> dict_get (stock p) 0 \<le> 0)
             (load_products st)))"
    using Some by (simp add: get_upsells_for_product_def rank_map_fst)
  then have "set (get_upsells_for_product st seed limit)
      \<subseteq> {p \<in> set (load_products st). pid p \<noteq> Some seed \<and> dict_get (published p) True \<and> \<not> dict_get (stock p) 0 \<le> 0}"
    using set_py_take [of limit "sort_desc (upsell_score s)
          (filter (\<lambda>p. pid p \<noteq> Some seed \<and> dict_get (published p) True \<and> \<not> dict_get (stock p) 0 \<le> 0)
             (load_products st))"]
    by auto
  then show ?thesis by (auto simp: dict_get_def)
qed

theorem upsells_exclusion_witness:
  "blank_product\<lparr>pid := Some (IdNum 4), stock := Some 2\<rparr>
     \<in> set (get_upsells_for_product
         \<lparr>products_file = [blank_product\<lparr>pid := Some (IdNum 1), stock := Some 3\<rparr>,
                           blank_product\<lparr>pid := Some (IdNum 2), stock := Some 0\<rparr>,
                           blank_product\<lparr>pid := Some (IdNum 3), published := Some False, stock := Some 5\<rparr>,
                           blank_product\<lparr>pid := Some (IdNum 4), stock := Some 2\<rparr>],
          history_file = Map.empty\<rparr> (IdNum 1) 3)
   \<and> pid (blank_product\<lparr>pid := Some (IdNum 4), stock := Some 2\<rparr>) \<noteq> Some (IdNum 1)
   \<and> published (blank_product\<lparr>pid := Some (IdNum 4), stock := Some 2\<rparr>) \<noteq> Some False
   \<and> 0 < dict_get (stock (blank_product\<lparr>pid := Some (IdNum 4), stock := Some 2\<rparr>)) 0"
proof -
  let ?st = "\<lparr>products_file = [blank_product\<lparr>pid := Some (IdNum 1), stock := Some 3\<rparr>,
                           blank_product\<lparr>pid := Some (IdNum 2), stock := Some 0\<rparr>,
                           blank_product\<lparr>pid := Some (IdNum 3), published := Some False, stock := Some 5\<rparr>,
                           blank_product\<lparr>pid := Some (IdNum 4), stock := Some 2\<rparr>],
          history_file = Map.empty\<rparr>"
  have m: "get_upsells_for_product ?st (IdNum 1) 3 = [blank_product\<lparr>pid := Some (IdNum 4), stock := Some 2\<rparr>]"
    by (simp add: get_upsells_for_product_def load_products_def
        sort_desc_def py_take_def dict_get_def blank_product_def)
  have h: "\<exists>p \<in> set (load_products ?st). pid p = Some (IdNum 1)"
    by (simp add: load_products_def)
  show ?thesis
    using upsells_exclusion [of ?st "IdNum 1" 3] h unfolding m by simp
qed

subsection \<open>Fallback policy\<close>




subsection \<open>The entry point outside the product context\<close>

text \<open>
  C10: in the contexts \<open>cart\<close>, \<open>checkout\<close> and \<open>post_purchase\<close> the entry point passes
  an empty list of items, so its result depends on the catalog alone: not on the product
  id, not on the user id, not on the history file (where carts live). In the cart context
  the score that ranks the candidates is the price, badge and rating part only; the
  category and tag bonuses never apply.
\<close>

theorem C10_contexts_ignore_arguments:
  assumes "context' \<in> {''cart'', ''checkout'', ''post_purchase''}"
      and "products_file st = products_file st'"
  shows "get_ai_recommendations st product_id user_id context' limit
         = get_ai_recommendations st' product_id' user_id' context' limit
       \<and> get_ai_recommendations st product_id user_id ''cart'' limit
         = py_take limit (sort_desc
             (\<lambda>p. (if dict_get (price p) 0 < 20 then 25 else if dict_get (price p) 0 < 40 then 15 else 0)
                   + (if badge p \<in> {Some ''Bestseller'', Some ''Hot'', Some ''Trending''} then 10 else 0)
                   + (if 4.5 \<le> dict_get (rating p) 0 then 10 else 0))
             (filter (\<lambda>p. published p \<noteq> Some False \<and> 0 < dict_get (stock p) 0) (products_file st)))"
proof -
  have pub: "dict_get (published p) True = (published p \<noteq> Some False)" for p :: product
    by (cases "published p") (auto simp: dict_get_def)
  have sc: "cart_score {} {} = (\<lambda>p. (if dict_get (price p) 0 < 20 then 25 else if dict_get (price p) 0 < 40 then 15 else 0)
                   + (if badge p \<in> {Some ''Bestseller'', Some ''Hot'', Some ''Trending''} then 10 else 0)
                   + (if 4.5 \<le> dict_get (rating p) 0 then 10 else 0))"
    by (auto simp: cart_score_def Let_def fun_eq_iff split: option.splits)
  have cart: "get_ai_recommendations st product_id user_id ''cart'' limit
         = py_take limit (sort_desc (cart_score {} {})
             (filter (\<lambda>p. published p \<noteq> Some False \<and> 0 < dict_get (stock p) 0) (products_file st)))"
    by (simp add: get_ai_recommendations_def get_cart_upsells_def load_products_def rank_map_fst pub not_le)
  have indep: "get_ai_recommendations st product_id user_id context' limit
         = get_ai_recommendations st' product_id' user_id' context' limit"
    using assms
    by (auto simp: get_ai_recommendations_def get_cart_upsells_def get_checkout_upsells_def
        get_post_purchase_upsells_def load_products_def)
  show ?thesis using indep cart unfolding sc by simp
qed

theorem C10_contexts_ignore_arguments_witness:
  "get_ai_recommendations
     \<lparr>products_file = [blank_product\<lparr>pid := Some (IdNum 1), price := Some 50, category := Some ''toys'', stock := Some 1\<rparr>,
                       blank_product\<lparr>pid := Some (IdNum 2), price := Some 10, stock := Some 1\<rparr>],
      history_file = Map.empty\<rparr> (Some (IdNum 1)) None ''cart'' 3
   = get_ai_recommendations
     \<lparr>products_file = [blank_product\<lparr>pid := Some (IdNum 1), price := Some 50, category := Some ''toys'', stock := Some 1\<rparr>,
                       blank_product\<lparr>pid := Some (IdNum 2), price := Some 10, stock := Some 1\<rparr>],
      history_file = [''ann'' \<mapsto> \<lparr>views = [], purchases = [],
          cart = [\<lparr>item_id = Some (IdNum 2), item_category = Some ''toys'', item_tags = [],
                   item_price = Some 10, quantity = Some 1\<rparr>]\<rparr>]\<rparr> None (Some ''ann'') ''cart'' 3
   \<and> get_ai_recommendations
     \<lparr>products_file = [blank_product\<lparr>pid := Some (IdNum 1), price := Some 50, category := Some ''toys'', stock := Some 1\<rparr>,
                       blank_product\<lparr>pid := Some (IdNum 2), price := Some 10, stock := Some 1\<rparr>],
      history_file = Map.empty\<rparr> (Some (IdNum 1)) None ''cart'' 3
   = [blank_product\<lparr>pid := Some (IdNum 2), price := Some 10, stock := Some 1\<rparr>,
      blank_product\<lparr>pid := Some (IdNum 1), price := Some 50, category := Some ''toys'', stock := Some 1\<rparr>]"
proof -
  let ?ps = "[blank_product\<lparr>pid := Some (IdNum 1), price := Some 50, category := Some ''toys'', stock := Some 1\<rparr>,
                       blank_product\<lparr>pid := Some (IdNum 2), price := Some 10, stock := Some 1\<rparr>]"
  let ?h = "[''ann'' \<mapsto> \<lparr>views = [], purchases = [],
          cart = [\<lparr>item_id = Some (IdNum 2), item_category = Some ''toys'', item_tags = [],
                   item_price = Some 10, quantity = Some 1\<rparr>]\<rparr>]"
  have c: "''cart'' \<in> {''cart'', ''checkout'', ''post_purchase''}" by simp
  have p: "products_file \<lparr>products_file = ?ps, history_file = Map.empty\<rparr>
         = products_file \<lparr>products_file = ?ps, history_file = ?h\<rparr>" by simp
  note t = C10_contexts_ignore_arguments [OF c p, of "Some (IdNum 1)" None 3 None "Some ''ann''"]
  have e1: "get_ai_recommendations \<lparr>products_file = ?ps, history_file = Map.empty\<rparr> (Some (IdNum 1)) None ''cart'' 3
     = get_ai_recommendations \<lparr>products_file = ?ps, history_file = ?h\<rparr> None (Some ''ann'') ''cart'' 3"
    using t by (rule conjunct1)
  have e2: "get_ai_recommendations \<lparr>products_file = ?ps, history_file = Map.empty\<rparr> (Some (IdNum 1)) None ''cart'' 3
     = [blank_product\<lparr>pid := Some (IdNum 2), price := Some 10, stock := Some 1\<rparr>,
        blank_product\<lparr>pid := Some (IdNum 1), price := Some 50, category := Some ''toys'', stock := Some 1\<rparr>]"
    unfolding conjunct2 [OF t]
    by (simp add: sort_desc_def py_take_def dict_get_def blank_product_def)
  show ?thesis using e1 e2 by (rule conjI)
qed

section \<open>Properties of the search engine\<close>

subsection \<open>Helpers on lists\<close>

lemma char_of_eq_iff: "char_of (n::nat) = c \<longleftrightarrow> n mod 256 = of_char c"
  by (metis of_char_of char_of_char)




subsection \<open>The price of a product without price\<close>





subsection \<open>Malformed filters and sort keys\<close>

lemma apply_filters_error_iff:
  "apply_filters ps flt = Inl ValueError
     \<longleftrightarrow> (\<exists>f. flt = Some f \<and> (price_min f = Some NonNumeric \<or> price_max f = Some NonNumeric))"
  by (auto simp: apply_filters_def py_float_def Let_def split: option.splits bound.splits sum.splits)

text \<open>
  C6, as stated, fails. The sort key \<open>cheapest\<close> is unknown, and the search answers with
  its match instead of an error; and with an empty catalog a non-numeric \<open>price_max\<close>
  is not rejected either. (Here \<open>ratio\<close> is the constant 0.)
\<close>

theorem C6_no_rejection_counterexample:
  "search_products (\<lambda>a b. 0)
     [blank_product\<lparr>pid := Some (IdNum 1), title := Some ''Squeaky Dog Ball'', price := Some 8\<rparr>]
     ''dog'' None ''cheapest'' 50
   = Inr \<lparr>results = [blank_product\<lparr>pid := Some (IdNum 1), title := Some ''Squeaky Dog Ball'', price := Some 8\<rparr>],
          total = 1, query_echo = ''dog'', echo = Some (None, ''cheapest'')\<rparr>
   \<and> search_products (\<lambda>a b. 0) [] ''dog'' (Some (no_filters\<lparr>price_max := Some NonNumeric\<rparr>)) ''relevance'' 50
   = Inr \<lparr>results = [], total = 0, query_echo = ''dog'', echo = None\<rparr>"
  by code_simp

text \<open>
  C6, amended: \<open>search_products\<close> raises (a \<open>ValueError\<close>, from \<open>float()\<close>) exactly when
  the catalog is not empty and the filter set holds a non-numeric \<open>price_min\<close> or
  \<open>price_max\<close>; an unknown sort key is never rejected, \<open>sort_products\<close> returns the list
  in the order it came.
\<close>

theorem C6_errors_and_unknown_sort:
  "(search_products ratio products q flt sort_by limit = Inl ValueError
      \<longleftrightarrow> products \<noteq> [] \<and> (\<exists>f. flt = Some f \<and> (price_min f = Some NonNumeric \<or> price_max f = Some NonNumeric)))
   \<and> (sort_by \<notin> {''relevance'', ''price_low'', ''price_high'', ''name''}
        \<longrightarrow> sort_products ps sort_by sc = ps)"
proof -
  have "(search_products ratio products q flt sort_by limit = Inl ValueError)
      = (products \<noteq> [] \<and> apply_filters (filter (\<lambda>p. 10 \<le> scores_get (map (\<lambda>product. (pid product, calculate_relevance ratio product q)) products) (pid p)) products) flt = Inl ValueError)"
    by (auto simp: search_products_def Let_def split: sum.splits)
  then show ?thesis
    by (simp add: apply_filters_error_iff sort_products_def)
qed

theorem C6_errors_and_unknown_sort_witness:
  "search_products (\<lambda>a b. 0)
     [blank_product\<lparr>pid := Some (IdNum 1), title := Some ''Squeaky Dog Ball'', price := Some 8\<rparr>]
     ''dog'' (Some (no_filters\<lparr>price_max := Some NonNumeric\<rparr>)) ''cheapest'' 50
   = Inl ValueError
   \<and> sort_products [blank_product\<lparr>pid := Some (IdNum 2)\<rparr>, blank_product\<lparr>pid := Some (IdNum 1)\<rparr>]
        ''cheapest'' []
     = [blank_product\<lparr>pid := Some (IdNum 2)\<rparr>, blank_product\<lparr>pid := Some (IdNum 1)\<rparr>]"
  using C6_errors_and_unknown_sort [of "\<lambda>a b. 0"
      "[blank_product\<lparr>pid := Some (IdNum 1), title := Some ''Squeaky Dog Ball'', price := Some 8\<rparr>]"
      "''dog''" "Some (no_filters\<lparr>price_max := Some NonNumeric\<rparr>)" "''cheapest''" 50
      "[blank_product\<lparr>pid := Some (IdNum 2)\<rparr>, blank_product\<lparr>pid := Some (IdNum 1)\<rparr>]" "[]"]
  by (simp add: no_filters_def)

subsection \<open>Ranking by relevance\<close>












subsection \<open>The empty query\<close>

lemma py_lower_char_space: "py_isspace c \<Longrightarrow> py_lower_char c = c"
  by (auto simp: py_isspace_def py_lower_char_def Let_def)

lemma sub_spaces_blank:
  "\<forall>c \<in> set s. py_isspace c \<Longrightarrow> s \<noteq> [] \<Longrightarrow> sub_spaces s = [CHR '' '']"
  by (induction s rule: sub_spaces.induct) simp_all

lemma normalize_text_blank:
  assumes "\<forall>c \<in> set q. py_isspace c"
  shows "normalize_text (Some q) = []"
proof (cases "q = []")
  case True
  then show ?thesis by (simp add: normalize_text_def)
next
  case False
  have l: "py_lower q = q"
    using assms by (simp add: py_lower_def py_lower_char_space map_idI)
  have w: "sub_non_word q = q"
    using assms by (simp add: sub_non_word_def map_idI)
  have sp: "py_isspace (CHR '' '')" by (simp add: py_isspace_def)
  show ?thesis
    using False by (simp add: normalize_text_def l w sub_spaces_blank [OF assms False] py_strip_def sp)
qed

lemma fuzzy_match_empty_query: "fuzzy_match ratio [] t = 0"
  by (simp add: fuzzy_match_def)

lemma calculate_relevance_blank:
  assumes "\<forall>c \<in> set q. py_isspace c"
  shows "calculate_relevance ratio p q = 105 + (if images p \<noteq> [] then 5 else 0)"
  by (simp add: calculate_relevance_def normalize_text_blank [OF assms] fuzzy_match_empty_query
      py_in_def Let_def)

lemma scores_get_in_range:
  assumes "p \<in> set ps"
  shows "\<exists>x \<in> set ps. scores_get (map (\<lambda>x. (pid x, f x)) ps) (pid p) = f x"
proof -
  have "pid p \<in> fst ` set (rev (map (\<lambda>x. (pid x, f x)) ps))" using assms by force
  then obtain v where v: "map_of (rev (map (\<lambda>x. (pid x, f x)) ps)) (pid p) = Some v"
    by (metis weak_map_of_SomeI map_of_eq_None_iff not_None_eq)
  then have "(pid p, v) \<in> set (rev (map (\<lambda>x. (pid x, f x)) ps))" by (rule map_of_SomeD)
  then obtain x where "x \<in> set ps" "v = f x" by auto
  then show ?thesis using v by (auto simp: scores_get_def)
qed

text \<open>
  C1, as stated, fails. The catalog holds one product; the query is a single space; the
  search returns the product, with \<open>total = 1\<close>. (Here \<open>ratio\<close> is the constant 0; an
  empty query never reaches it.)
\<close>

theorem C1_blank_query_counterexample:
  "search_products (\<lambda>a b. 0)
     [blank_product\<lparr>pid := Some (IdNum 1), title := Some ''Squeaky Dog Ball'', tags := [''dog'', ''toy''], price := Some 8\<rparr>]
     '' '' None ''relevance'' 50
   = Inr \<lparr>results = [blank_product\<lparr>pid := Some (IdNum 1), title := Some ''Squeaky Dog Ball'', tags := [''dog'', ''toy''], price := Some 8\<rparr>],
          total = 1, query_echo = '' '', echo = Some (None, ''relevance'')\<rparr>"
  by code_simp

text \<open>
  C1, amended: for a query that is empty or only whitespace every product scores 105 (110
  with an image), from the three substring tests that the empty string passes; so every
  product of the catalog is matched, and on a non-empty catalog the search returns the
  products that pass the filters: \<open>total\<close> is their number and \<open>results\<close> their sorted
  list cut to the limit.
\<close>

theorem C1_blank_query_matches_all:
  assumes blank: "\<forall>c \<in> set q. py_isspace c"
  shows "calculate_relevance ratio p q = 105 + (if images p \<noteq> [] then 5 else 0)
       \<and> (products \<noteq> [] \<and> apply_filters products flt = Inr F \<longrightarrow>
            search_products ratio products q flt sort_by limit
            = Inr \<lparr>results = py_take limit (sort_products F sort_by
                                (map (\<lambda>x. (pid x, calculate_relevance ratio x q)) products)),
                   total = length F, query_echo = q, echo = Some (flt, sort_by)\<rparr>)"
proof -
  have all: "filter (\<lambda>p. 10 \<le> scores_get (map (\<lambda>x. (pid x, calculate_relevance ratio x q)) products) (pid p)) products
           = products"
  proof (rule filter_True, rule ballI)
    fix p assume "p \<in> set products"
    from scores_get_in_range [OF this, of "\<lambda>x. calculate_relevance ratio x q"]
    obtain x where "scores_get (map (\<lambda>x. (pid x, calculate_relevance ratio x q)) products) (pid p)
        = calculate_relevance ratio x q" by blast
    then show "10 \<le> scores_get (map (\<lambda>x. (pid x, calculate_relevance ratio x q)) products) (pid p)"
      by (simp add: calculate_relevance_blank [OF blank])
  qed
  have "search_products ratio products q flt sort_by limit
            = Inr \<lparr>results = py_take limit (sort_products F sort_by
                                (map (\<lambda>x. (pid x, calculate_relevance ratio x q)) products)),
                   total = length F, query_echo = q, echo = Some (flt, sort_by)\<rparr>"
    if "products \<noteq> []" "apply_filters products flt = Inr F"
    using that by (simp add: search_products_def Let_def all)
  then show ?thesis
    using calculate_relevance_blank [OF blank, of ratio p] by blast
qed

theorem C1_blank_query_matches_all_witness:
  "calculate_relevance (\<lambda>a b. 0)
     (blank_product\<lparr>pid := Some (IdNum 1), title := Some ''Squeaky Dog Ball''\<rparr>) ''  '' = 105"
proof -
  have b: "\<forall>c \<in> set ''  ''. py_isspace c" by (simp add: py_isspace_def)
  show ?thesis
    using conjunct1 [OF C1_blank_query_matches_all [OF b, of "\<lambda>a b. 0"
        "blank_product\<lparr>pid := Some (IdNum 1), title := Some ''Squeaky Dog Ball''\<rparr>"]]
    by (simp add: blank_product_def)
qed

section \<open>Properties of the text normalizer\<close>

subsection \<open>Characters\<close>

lemma space_char_isspace: "py_isspace (CHR '' '')"
  by (simp add: py_isspace_def)

lemma py_isword_not_space: "py_isword c \<Longrightarrow> \<not> py_isspace c"
  by (auto simp: py_isword_def py_isalnum_def py_isspace_def Let_def)

lemma py_lower_char_idem: "py_lower_char (py_lower_char c) = py_lower_char c"
  by (auto simp: py_lower_char_def Let_def)

subsection \<open>Tokens\<close>

lemma tokens_Cons_nonsep:
  assumes "\<not> sep c"
  shows "tokens sep (c # xs)
         = (case xs of
              [] \<Rightarrow> [[c]]
            | d # ds \<Rightarrow> if sep d then [c] # tokens sep xs
                        else (c # hd (tokens sep xs)) # tl (tokens sep xs))"
  using assms by (cases xs) simp_all

lemma tokens_map:
  assumes "\<And>c. sep' (f c) = sep c" "\<And>c. \<not> sep c \<Longrightarrow> f c = c"
  shows "tokens sep' (map f s) = tokens sep s"
  using assms
proof (induction sep s rule: tokens.induct)
  case (1 sep)
  show ?case by simp
next
  case (2 sep c cs)
  have tw: "takeWhile (\<lambda>x. \<not> sep' x) (map f cs) = takeWhile (\<lambda>x. \<not> sep x) cs"
  proof -
    have "takeWhile (\<lambda>x. \<not> sep' x) (map f cs) = map f (takeWhile (\<lambda>x. \<not> sep x) cs)"
      by (simp add: takeWhile_map comp_def 2(3))
    also have "\<dots> = takeWhile (\<lambda>x. \<not> sep x) cs"
      by (rule map_idI) (auto dest: set_takeWhileD simp: 2(4))
    finally show ?thesis .
  qed
  have dw: "dropWhile (\<lambda>x. \<not> sep' x) (map f cs) = map f (dropWhile (\<lambda>x. \<not> sep x) cs)"
    by (simp add: dropWhile_map comp_def 2(3))
  show ?case
  proof (cases "sep c")
    case True
    then show ?thesis using 2 by simp
  next
    case False
    then have "f c = c" by (rule 2(4))
    with False 2(3) [of c] have "\<not> sep' c" by simp
    with False \<open>f c = c\<close> show ?thesis using 2 by (simp add: tw dw)
  qed
qed

lemma tokens_dropWhile: "tokens sep (dropWhile sep s) = tokens sep s"
  by (induction s) simp_all

lemma tokens_snoc_sep: "sep c \<Longrightarrow> tokens sep (xs @ [c]) = tokens sep xs"
proof (induction sep xs rule: tokens.induct)
  case (1 sep)
  then show ?case by simp
next
  case (2 sep d ds)
  have tw: "takeWhile (\<lambda>x. \<not> sep x) (ds @ [c]) = takeWhile (\<lambda>x. \<not> sep x) ds"
  proof (cases "\<forall>x \<in> set ds. \<not> sep x")
    case True
    then have "takeWhile (\<lambda>x. \<not> sep x) ds = ds" by simp
    then show ?thesis using True 2(3) by (simp only: takeWhile_append2 [of ds "\<lambda>x. \<not> sep x"]) simp
  next
    case False
    then obtain x where "x \<in> set ds" "sep x" by blast
    then show ?thesis by (intro takeWhile_append1 [of x]) simp_all
  qed
  have dw: "dropWhile (\<lambda>x. \<not> sep x) (ds @ [c]) = dropWhile (\<lambda>x. \<not> sep x) ds @ [c]"
    using 2(3) by (simp add: dropWhile_append)
  show ?case
    using 2 by (simp add: tw dw)
qed

lemma tokens_strip_right: "tokens sep (rev (dropWhile sep (rev s))) = tokens sep s"
proof (induction s rule: rev_induct)
  case Nil
  show ?case by simp
next
  case (snoc c xs)
  then show ?case by (simp add: tokens_snoc_sep)
qed

lemma tokens_py_strip: "tokens py_isspace (py_strip s) = tokens py_isspace s"
  by (simp add: py_strip_def tokens_strip_right tokens_dropWhile)

subsection \<open>Collapsing whitespace\<close>

lemma sub_spaces_hd:
  "s \<noteq> [] \<Longrightarrow> sub_spaces s \<noteq> [] \<and> py_isspace (hd (sub_spaces s)) = py_isspace (hd s)"
  by (induction s rule: sub_spaces.induct) (simp_all add: space_char_isspace)

lemma tokens_sub_spaces: "tokens py_isspace (sub_spaces s) = tokens py_isspace s"
proof (induction s rule: sub_spaces.induct)
  case 1
  show ?case by simp
next
  case (2 c)
  show ?case by (simp add: space_char_isspace)
next
  case (3 c d cs)
  show ?case
  proof (cases "py_isspace c")
    case True
    then show ?thesis using 3 by (simp add: space_char_isspace)
  next
    case False
    from sub_spaces_hd [of "d # cs"] obtain e es where
      e: "sub_spaces (d # cs) = e # es" "py_isspace e = py_isspace d"
      by (cases "sub_spaces (d # cs)") auto
    have "tokens py_isspace (c # sub_spaces (d # cs))
        = (if py_isspace d then [c] # tokens py_isspace (sub_spaces (d # cs))
           else (c # hd (tokens py_isspace (sub_spaces (d # cs)))) # tl (tokens py_isspace (sub_spaces (d # cs))))"
      using False e by (simp add: tokens_Cons_nonsep del: tokens.simps)
    also have "\<dots> = tokens py_isspace (c # d # cs)"
      using False 3 by (simp add: tokens_Cons_nonsep [of py_isspace c "d # cs"] del: tokens.simps)
    finally show ?thesis using False by simp
  qed
qed


lemma set_sub_spaces:
  "c \<in> set (sub_spaces s) \<Longrightarrow> c = CHR '' '' \<or> (c \<in> set s \<and> \<not> py_isspace c)"
  by (induction s rule: sub_spaces.induct) (auto split: if_splits)

lemma no_adjacent_spaces:
  assumes "py_isspace a" "py_isspace b"
  shows "\<not> sublist [a, b] (sub_spaces s)"
proof (induction s rule: sub_spaces.induct)
  case 1
  show ?case by simp
next
  case (2 c)
  show ?case by (simp add: sublist_Cons_right)
next
  case (3 c d cs)
  from sub_spaces_hd [of "d # cs"] obtain e es where
    e: "sub_spaces (d # cs) = e # es" "py_isspace e = py_isspace d"
    by (cases "sub_spaces (d # cs)") auto
  show ?case
  proof (cases "py_isspace c")
    case True
    show ?thesis
    proof (cases "py_isspace d")
      case True
      with \<open>py_isspace c\<close> 3 show ?thesis by simp
    next
      case False
      have "\<not> prefix [a, b] (CHR '' '' # e # es)" using False e assms by auto
      with \<open>py_isspace c\<close> False 3 e show ?thesis by (simp add: sublist_Cons_right)
    qed
  next
    case False
    have "\<not> prefix [a, b] (c # sub_spaces (d # cs))" using False assms by auto
    with False 3 show ?thesis by (simp add: sublist_Cons_right)
  qed
qed

subsection \<open>Stripping\<close>

lemma set_py_strip: "set (py_strip s) \<subseteq> set s"
  by (auto simp: py_strip_def dest!: set_dropWhileD)

lemma sublist_py_strip: "sublist (py_strip s) s"
proof -
  have "sublist (dropWhile py_isspace (rev (dropWhile py_isspace s))) (rev (dropWhile py_isspace s))"
    by (intro suffix_imp_sublist suffix_dropWhile)
  then have "sublist (py_strip s) (dropWhile py_isspace s)"
    by (simp add: py_strip_def sublist_rev_left)
  moreover have "sublist (dropWhile py_isspace s) s"
    by (intro suffix_imp_sublist suffix_dropWhile)
  ultimately show ?thesis by (rule sublist_order.order.trans)
qed

lemma last_dropWhile_keep: "dropWhile P xs \<noteq> [] \<Longrightarrow> last (dropWhile P xs) = last xs"
  by (induction xs) (auto split: if_splits)

lemma py_strip_ends:
  assumes "py_strip s \<noteq> []"
  shows "\<not> py_isspace (hd (py_strip s)) \<and> \<not> py_isspace (last (py_strip s))"
proof -
  define z where "z = dropWhile py_isspace s"
  define y where "y = dropWhile py_isspace (rev z)"
  have r: "py_strip s = rev y" by (simp add: py_strip_def y_def z_def)
  with assms have y: "y \<noteq> []" by simp
  then have z: "z \<noteq> []" by (auto simp: y_def)
  have "last (py_strip s) = hd y" using y by (simp add: r last_rev)
  moreover have "\<not> py_isspace (hd y)" using y unfolding y_def by (rule hd_dropWhile)
  moreover have "hd (py_strip s) = last y" using y by (simp add: r hd_rev)
  moreover have "last y = last (rev z)" using y unfolding y_def by (rule last_dropWhile_keep)
  moreover have "last (rev z) = hd z" using z by (simp add: last_rev)
  moreover have "\<not> py_isspace (hd z)" using z unfolding z_def by (rule hd_dropWhile)
  ultimately show ?thesis by simp
qed

subsection \<open>The normalizer\<close>

lemma tokens_sub_non_word:
  "tokens py_isspace (sub_non_word t) = tokens (\<lambda>c. \<not> py_isword c) t"
  unfolding sub_non_word_def
  by (rule tokens_map) (auto simp: space_char_isspace dest: py_isword_not_space)

lemma normalize_text_pipeline:
  "normalize_text (Some s) = py_strip (sub_spaces (sub_non_word (py_lower s)))"
  by (simp add: normalize_text_def py_lower_def sub_non_word_def py_strip_def)

lemma py_split_normalize_text:
  "py_split (normalize_text (Some s)) = tokens (\<lambda>c. \<not> py_isword c) (py_lower s)"
  by (simp add: normalize_text_pipeline py_split_def tokens_py_strip tokens_sub_spaces
      tokens_sub_non_word)

lemma normalize_text_chars:
  assumes "c \<in> set (normalize_text (Some s))"
  shows "c = CHR '' '' \<or> (py_isword c \<and> py_lower_char c = c)"
proof -
  from assms have "c \<in> set (sub_spaces (sub_non_word (py_lower s)))"
    using set_py_strip by (auto simp: normalize_text_pipeline)
  then have "c = CHR '' '' \<or> (c \<in> set (sub_non_word (py_lower s)) \<and> \<not> py_isspace c)"
    by (rule set_sub_spaces)
  then show ?thesis
  proof
    assume "c = CHR '' ''" then show ?thesis by simp
  next
    assume c: "c \<in> set (sub_non_word (py_lower s)) \<and> \<not> py_isspace c"
    then obtain d where d: "d \<in> set (py_lower s)"
        "c = (if py_isword d \<or> py_isspace d then d else CHR '' '')"
      by (auto simp: sub_non_word_def)
    with c have "py_isword d" "c = d" by (auto simp: space_char_isspace split: if_splits)
    moreover from d(1) have "py_lower_char d = d"
      by (auto simp: py_lower_def py_lower_char_idem)
    ultimately show ?thesis by simp
  qed
qed

text \<open>
  C9, as stated, fails on the underscore: it is neither alphanumeric nor whitespace, and
  \<open>normalize_text\<close> keeps it, because the class \<open>\w\<close> of the pattern contains it.
\<close>

theorem C9_underscore_counterexample:
  "normalize_text (Some ''a_b'') = ''a_b'' \<and> \<not> py_isalnum (CHR ''_'') \<and> \<not> py_isspace (CHR ''_'')"
  by code_simp

text \<open>
  C9, amended: \<open>normalize_text\<close> maps \<open>None\<close> to the empty string and is total. For a
  string, the result is made of single spaces and of lowercased word characters
  (alphanumeric or underscore) only, does not begin or end with a space, has no two spaces
  in a row, and its words are the maximal runs of word characters of the lowercased input:
  every character that is neither a word character nor whitespace acts as a separator,
  like whitespace.
\<close>

theorem C9_normalize_text:
  "normalize_text None = []
   \<and> (\<forall>c \<in> set (normalize_text (Some s)). c = CHR '' '' \<or> (py_isword c \<and> py_lower_char c = c))
   \<and> (normalize_text (Some s) \<noteq> [] \<longrightarrow>
        hd (normalize_text (Some s)) \<noteq> CHR '' '' \<and> last (normalize_text (Some s)) \<noteq> CHR '' '')
   \<and> \<not> sublist [CHR '' '', CHR '' ''] (normalize_text (Some s))
   \<and> py_split (normalize_text (Some s)) = tokens (\<lambda>c. \<not> py_isword c) (py_lower s)"
proof -
  have 1: "normalize_text None = []" by (simp add: normalize_text_def)
  have 2: "\<forall>c \<in> set (normalize_text (Some s)). c = CHR '' '' \<or> (py_isword c \<and> py_lower_char c = c)"
    using normalize_text_chars by blast
  have 3: "normalize_text (Some s) \<noteq> [] \<longrightarrow>
        hd (normalize_text (Some s)) \<noteq> CHR '' '' \<and> last (normalize_text (Some s)) \<noteq> CHR '' ''"
    unfolding normalize_text_pipeline using py_strip_ends space_char_isspace by metis
  have 4: "\<not> sublist [CHR '' '', CHR '' ''] (normalize_text (Some s))"
    unfolding normalize_text_pipeline
    using no_adjacent_spaces [OF space_char_isspace space_char_isspace] sublist_py_strip
      sublist_order.order.trans by blast
  show ?thesis using 1 2 3 4 py_split_normalize_text by blast
qed

theorem C9_normalize_text_witness:
  "normalize_text (Some ''Squeaky  Dog-Ball! '') = ''squeaky dog ball''
   \<and> tokens (\<lambda>c. \<not> py_isword c) (py_lower ''Squeaky  Dog-Ball! '') = [''squeaky'', ''dog'', ''ball'']"
proof -
  have n: "normalize_text (Some ''Squeaky  Dog-Ball! '') = ''squeaky dog ball''" by code_simp
  have p: "py_split ''squeaky dog ball'' = [''squeaky'', ''dog'', ''ball'']" by code_simp
  show ?thesis using C9_normalize_text [of "''Squeaky  Dog-Ball! ''"] unfolding n p by simp
qed

section \<open>Properties of the search index\<close>

text \<open>
  A posting is read as a list, the empty list when the term has no entry; the builder only
  appends to it.
\<close>

lemma append_posting_apply:
  "append_posting d k i w
     = (if w = k then Some ((case d k of None \<Rightarrow> [] | Some l \<Rightarrow> l) @ [i]) else d w)"
  by (simp add: append_posting_def)

lemma posting_append_posting:
  "(case append_posting d k i w of None \<Rightarrow> [] | Some l \<Rightarrow> l)
     = (case d w of None \<Rightarrow> [] | Some l \<Rightarrow> l) @ (if k = w then [i] else [])"
  by (auto simp: append_posting_def)

lemma append_posting_no_empty:
  "d w \<noteq> Some [] \<Longrightarrow> append_posting d k i w \<noteq> Some []"
  by (simp add: append_posting_def)

lemma fold_title_words:
  "(case terms (fold (\<lambda>word ix. if length word > 2
                                  then ix\<lparr>terms := append_posting (terms ix) word i\<rparr>
                                  else ix) ws index) w of None \<Rightarrow> [] | Some l \<Rightarrow> l)
   = (case terms index w of None \<Rightarrow> [] | Some l \<Rightarrow> l)
       @ replicate (length (filter (\<lambda>x. x = w \<and> 2 < length x) ws)) i"
  by (induction ws arbitrary: index) (auto simp: posting_append_posting replicate_append_same)

lemma fold_title_words_no_empty:
  "terms index w \<noteq> Some [] \<Longrightarrow>
   terms (fold (\<lambda>word ix. if length word > 2
                           then ix\<lparr>terms := append_posting (terms ix) word i\<rparr>
                           else ix) ws index) w \<noteq> Some []"
  by (induction ws arbitrary: index) (simp_all add: append_posting_no_empty)

lemma fold_title_words_other:
  "entries (fold (\<lambda>word ix. if length word > 2
                           then ix\<lparr>terms := append_posting (terms ix) word i\<rparr>
                           else ix) ws index) = entries index"
  by (induction ws arbitrary: index) simp_all

lemma fold_tags:
  "(case terms (fold (\<lambda>tag ix. if normalize_text (Some tag) \<noteq> []
                       then ix\<lparr>terms := append_posting (terms ix) (normalize_text (Some tag)) i\<rparr>
                       else ix) ts index) w of None \<Rightarrow> [] | Some l \<Rightarrow> l)
   = (case terms index w of None \<Rightarrow> [] | Some l \<Rightarrow> l)
       @ replicate (length (filter (\<lambda>t. normalize_text (Some t) = w \<and> w \<noteq> []) ts)) i"
  by (induction ts arbitrary: index)
     (auto simp: posting_append_posting replicate_append_same Let_def)

lemma fold_tags_no_empty:
  "terms index w \<noteq> Some [] \<Longrightarrow>
   terms (fold (\<lambda>tag ix. if normalize_text (Some tag) \<noteq> []
                       then ix\<lparr>terms := append_posting (terms ix) (normalize_text (Some tag)) i\<rparr>
                       else ix) ts index) w \<noteq> Some []"
  by (induction ts arbitrary: index) (simp_all add: append_posting_no_empty Let_def)

lemma index_product_terms:
  "(case terms (index_product index p) w of None \<Rightarrow> [] | Some l \<Rightarrow> l)
   = (case terms index w of None \<Rightarrow> [] | Some l \<Rightarrow> l)
     @ (case pid p of
          None \<Rightarrow> []
        | Some i \<Rightarrow>
            if truthy_id i
            then replicate
                   (length (filter (\<lambda>x. x = w \<and> 2 < length x)
                              (py_split (normalize_text (Some (dict_get (title p) [])))))
                    + length (filter (\<lambda>t. normalize_text (Some t) = w \<and> w \<noteq> []) (tags p))) i
            else [])"
proof (cases "pid p")
  case None
  then show ?thesis by (simp add: index_product_def)
next
  case (Some i)
  then show ?thesis
    by (simp add: index_product_def Let_def fold_tags fold_title_words replicate_add)
qed

lemma index_product_no_empty:
  assumes "terms index w \<noteq> Some []"
  shows "terms (index_product index p) w \<noteq> Some []"
proof (cases "pid p")
  case None
  then show ?thesis using assms by (simp add: index_product_def)
next
  case (Some i)
  then show ?thesis
    using assms
    by (simp add: index_product_def Let_def fold_tags_no_empty fold_title_words_no_empty)
qed

lemma fold_index_product_terms:
  "(case terms (fold (\<lambda>product index. index_product index product) ps index) w of
      None \<Rightarrow> [] | Some l \<Rightarrow> l)
   = (case terms index w of None \<Rightarrow> [] | Some l \<Rightarrow> l)
     @ concat (map (\<lambda>p. case pid p of
          None \<Rightarrow> []
        | Some i \<Rightarrow>
            if truthy_id i
            then replicate
                   (length (filter (\<lambda>x. x = w \<and> 2 < length x)
                              (py_split (normalize_text (Some (dict_get (title p) [])))))
                    + length (filter (\<lambda>t. normalize_text (Some t) = w \<and> w \<noteq> []) (tags p))) i
            else []) ps)"
proof (induction ps arbitrary: index)
  case Nil
  show ?case by simp
next
  case (Cons p ps)
  show ?case
    unfolding fold_simps list.map concat.simps Cons.IH index_product_terms
    by simp
qed

lemma fold_index_product_no_empty:
  "terms index w \<noteq> Some [] \<Longrightarrow>
   terms (fold (\<lambda>product index. index_product index product) ps index) w \<noteq> Some []"
  by (induction ps arbitrary: index) (simp_all add: index_product_no_empty)

text \<open>
  C8, as stated, fails. One product, id 1, has the title \<open>Dog dog\<close> and the tags
  \<open>Cat Toy\<close> and \<open>XL\<close>. The posting of \<open>dog\<close> holds the id twice; the tag
  \<open>Cat Toy\<close> is indexed whole, under \<open>cat toy\<close>, and not under \<open>cat\<close>; the tag \<open>XL\<close>
  is indexed although it has two characters.
\<close>

theorem C8_tags_and_duplicates_counterexample:
  "terms (build_search_index
     [blank_product\<lparr>pid := Some (IdNum 1), title := Some ''Dog dog'', tags := [''Cat Toy'', ''XL'']\<rparr>]) ''dog''
     = Some [IdNum 1, IdNum 1]
   \<and> \<not> distinct [IdNum 1, IdNum 1]
   \<and> terms (build_search_index
     [blank_product\<lparr>pid := Some (IdNum 1), title := Some ''Dog dog'', tags := [''Cat Toy'', ''XL'']\<rparr>]) ''cat toy''
     = Some [IdNum 1]
   \<and> terms (build_search_index
     [blank_product\<lparr>pid := Some (IdNum 1), title := Some ''Dog dog'', tags := [''Cat Toy'', ''XL'']\<rparr>]) ''cat''
     = None
   \<and> terms (build_search_index
     [blank_product\<lparr>pid := Some (IdNum 1), title := Some ''Dog dog'', tags := [''Cat Toy'', ''XL'']\<rparr>]) ''xl''
     = Some [IdNum 1]"
  by code_simp

text \<open>
  C8, amended: products without an id, or with an id that is false, are skipped. For every
  other product the builder appends its id to the posting of a term once for each
  occurrence of the term among the words of more than 2 characters of the normalized
  title, and once for each tag whose normalized text, taken whole and not empty, is the
  term. A posting is the list of these ids in catalog order, so it may hold an id several
  times; a term with no occurrence has no entry.
\<close>

theorem C8_postings:
  "terms (build_search_index products) w
   = (let l = concat (map (\<lambda>p. case pid p of
          None \<Rightarrow> []
        | Some i \<Rightarrow>
            if truthy_id i
            then replicate
                   (length (filter (\<lambda>x. x = w \<and> 2 < length x)
                              (py_split (normalize_text (Some (dict_get (title p) [])))))
                    + length (filter (\<lambda>t. normalize_text (Some t) = w \<and> w \<noteq> []) (tags p))) i
            else []) products)
      in if l = [] then None else Some l)"
proof -
  let ?empty = "\<lparr>entries = Map.empty, terms = Map.empty, categories = Map.empty, animals = Map.empty\<rparr>"
  have ne: "terms (build_search_index products) w \<noteq> Some []"
    unfolding build_search_index_def by (rule fold_index_product_no_empty) simp
  have "(case terms (build_search_index products) w of None \<Rightarrow> [] | Some l \<Rightarrow> l)
      = concat (map (\<lambda>p. case pid p of
          None \<Rightarrow> []
        | Some i \<Rightarrow>
            if truthy_id i
            then replicate
                   (length (filter (\<lambda>x. x = w \<and> 2 < length x)
                              (py_split (normalize_text (Some (dict_get (title p) [])))))
                    + length (filter (\<lambda>t. normalize_text (Some t) = w \<and> w \<noteq> []) (tags p))) i
            else []) products)"
    unfolding build_search_index_def fold_index_product_terms by simp
  with ne show ?thesis
    by (cases "terms (build_search_index products) w") (simp_all add: Let_def)
qed

theorem C8_postings_witness:
  "terms (build_search_index
     [blank_product\<lparr>pid := Some (IdNum 1), title := Some ''Squeaky Dog Ball'', tags := [''dog'', ''toy'']\<rparr>,
      blank_product\<lparr>pid := Some (IdNum 2), title := Some ''Dog Bed'', tags := []\<rparr>]) ''dog''
   = Some [IdNum 1, IdNum 1, IdNum 2]"
proof -
  have n: "normalize_text (Some ''Squeaky Dog Ball'') = ''squeaky dog ball''"
       "normalize_text (Some ''Dog Bed'') = ''dog bed''"
       "normalize_text (Some ''dog'') = ''dog''" "normalize_text (Some ''toy'') = ''toy''"
    by code_simp+
  have p: "py_split ''squeaky dog ball'' = [''squeaky'', ''dog'', ''ball'']"
          "py_split ''dog bed'' = [''dog'', ''bed'']"
    by code_simp+
  show ?thesis
    unfolding C8_postings
    by (simp add: blank_product_def dict_get_def n p)
qed

end
